theory Spec2Isabelle
  imports Complex_Main "HOL-Library.Sublist" "HOL-Library.AList"
begin

section \<open>Python string primitives used by CodexLens\<close>

text \<open>
  A Python \<open>str\<close> is modelled as a \<open>string\<close>; a \<open>char\<close> stands for a code point
  below 256. The predicates below follow CPython on that range.
\<close>

definition dquote :: char where
  "dquote = CHR 0x22"

definition newline :: char where
  "newline = CHR 0x0A"

text \<open>\<open>str.isspace\<close> on one character; also what \<open>str.split()\<close>, \<open>str.strip()\<close> and the
  regular expression class \<open>\s\<close> use.\<close>

definition py_isspace :: "char \<Rightarrow> bool" where
  "py_isspace c \<longleftrightarrow>
     c \<in> set [CHR 0x09, CHR 0x0A, CHR 0x0B, CHR 0x0C, CHR 0x0D,
                CHR 0x1C, CHR 0x1D, CHR 0x1E, CHR 0x1F, CHR 0x20, CHR 0x85, CHR 0xA0]"

text \<open>\<open>s.replace(old, new)\<close> where \<open>old\<close> is a single character (the only use in the source).\<close>

definition py_replace_char :: "char \<Rightarrow> string \<Rightarrow> string \<Rightarrow> string" where
  "py_replace_char old new s = concat (map (\<lambda>c. if c = old then new else [c]) s)"

text \<open>\<open>s.split()\<close>: the maximal runs of non-whitespace, in order. The first argument is the
  word being read.\<close>

fun split_ws_acc :: "string \<Rightarrow> string \<Rightarrow> string list" where
  "split_ws_acc cur [] = (if cur = [] then [] else [cur])"
| "split_ws_acc cur (c # cs) =
     (if py_isspace c
      then (if cur = [] then split_ws_acc [] cs else cur # split_ws_acc [] cs)
      else split_ws_acc (cur @ [c]) cs)"

definition py_split :: "string \<Rightarrow> string list" where
  "py_split s = split_ws_acc [] s"

text \<open>\<open>sep.join(xs)\<close>.\<close>

fun py_join :: "string \<Rightarrow> string list \<Rightarrow> string" where
  "py_join sep [] = []"
| "py_join sep [x] = x"
| "py_join sep (x # y # ys) = x @ sep @ py_join sep (y # ys)"

text \<open>\<open>s.strip()\<close>: whitespace is dropped at the left end, then at the right end.\<close>

definition py_lstrip :: "string \<Rightarrow> string" where
  "py_lstrip s = dropWhile py_isspace s"

definition py_rstrip :: "string \<Rightarrow> string" where
  "py_rstrip s = rev (dropWhile py_isspace (rev s))"

definition py_strip :: "string \<Rightarrow> string" where
  "py_strip s = py_rstrip (py_lstrip s)"

text \<open>\<open>s.split('\n')\<close>: always at least one piece. The first argument is the piece being
  read.\<close>

fun split_nl_acc :: "string \<Rightarrow> string \<Rightarrow> string list" where
  "split_nl_acc cur [] = [cur]"
| "split_nl_acc cur (c # cs) =
     (if c = newline then cur # split_nl_acc [] cs else split_nl_acc (cur @ [c]) cs)"

definition split_lines :: "string \<Rightarrow> string list" where
  "split_lines s = split_nl_acc [] s"

text \<open>\<open>str.lower\<close> on code points below 256: the ASCII capitals and the Latin-1 capitals
  (0xC0 to 0xDE without the multiplication sign 0xD7) move up by 32.\<close>

definition py_lower_char :: "char \<Rightarrow> char" where
  "py_lower_char c =
     (let n = (of_char c :: nat) in
      if (65 \<le> n \<and> n \<le> 90) \<or> (192 \<le> n \<and> n \<le> 222 \<and> n \<noteq> 215)
      then char_of (n + 32) else c)"

definition py_lower :: "string \<Rightarrow> string" where
  "py_lower s = map py_lower_char s"

text \<open>\<open>sub in s\<close> for strings.\<close>

fun contains :: "string \<Rightarrow> string \<Rightarrow> bool" where
  "contains sub [] = (sub = [])"
| "contains sub (c # cs) = (prefix sub (c # cs) \<or> contains sub cs)"

text \<open>\<open>xs[start:end]\<close> for \<open>0 \<le> start\<close> and \<open>0 \<le> end\<close>.\<close>

definition slice :: "'a list \<Rightarrow> nat \<Rightarrow> nat \<Rightarrow> 'a list" where
  "slice xs start end = take (end - start) (drop start xs)"

text \<open>\<open>xs[:n]\<close> for any integer \<open>n\<close>: a negative \<open>n\<close> counts from the end.\<close>

definition py_take :: "int \<Rightarrow> 'a list \<Rightarrow> 'a list" where
  "py_take n xs = (if 0 \<le> n then take (nat n) xs else take (length xs - nat (- n)) xs)"


section \<open>Query sanitizer (\<open>SearchEngine._prepare_fts_query\<close>)\<close>

definition special_chars :: "char list" where
  "special_chars =
     [CHR ''*'', CHR 0x22, CHR 0x27, CHR ''('', CHR '')'', CHR ''-'', CHR ''+'', CHR '':'',
      CHR ''^'', CHR ''~'']"

definition prepare_fts_query :: "string \<Rightarrow> string" where
  "prepare_fts_query query =
     (if CHR '' '' \<in> set query \<and> \<not> prefix [dquote] query
      then [dquote] @ py_replace_char dquote [dquote, dquote] query @ [dquote]
      else py_join '' ''
             (py_split (foldl (\<lambda>cleaned ch. py_replace_char ch '' '' cleaned) query special_chars)))"

subsection \<open>The policy in the words of the specification\<close>

text \<open>A phrase query: the text between double quotes, every embedded double quote doubled.\<close>

definition phrase_query :: "string \<Rightarrow> string" where
  "phrase_query q = dquote # concat (map (\<lambda>c. if c = dquote then [dquote, dquote] else [c]) q) @ [dquote]"

text \<open>Each reserved character becomes a space.\<close>

definition blank_specials :: "string \<Rightarrow> string" where
  "blank_specials q = map (\<lambda>c. if c \<in> set special_chars then CHR '' '' else c) q"

text \<open>Every run of whitespace becomes one space. The flag says that the previous character
  was whitespace.\<close>

fun collapse_from :: "bool \<Rightarrow> string \<Rightarrow> string" where
  "collapse_from prev [] = []"
| "collapse_from prev (c # cs) =
     (if py_isspace c
      then (if prev then collapse_from True cs else CHR '' '' # collapse_from True cs)
      else c # collapse_from False cs)"

definition collapse_ws :: "string \<Rightarrow> string" where
  "collapse_ws s = collapse_from False s"

definition has_whitespace :: "string \<Rightarrow> bool" where
  "has_whitespace q \<longleftrightarrow> (\<exists>c \<in> set q. py_isspace c)"

text \<open>The sanitizer as the specification words it: whitespace decides the branch, and the
  bag-of-words branch only collapses whitespace.\<close>

definition spec_sanitize :: "string \<Rightarrow> string" where
  "spec_sanitize q =
     (if has_whitespace q \<and> \<not> prefix [dquote] q then phrase_query q
      else collapse_ws (blank_specials q))"

text \<open>The sanitizer as the code has it, in the same vocabulary: a space character decides
  the branch, and the bag-of-words branch also drops leading and trailing whitespace.\<close>

definition code_sanitize :: "string \<Rightarrow> string" where
  "code_sanitize q =
     (if CHR '' '' \<in> set q \<and> \<not> prefix [dquote] q then phrase_query q
      else py_strip (collapse_ws (blank_specials q)))"



section \<open>Search results and the match extractor (\<open>SearchEngine._find_matches\<close>)\<close>

text \<open>\<open>SearchResult\<close> of \<open>models.py\<close>. Scores are Python floats in the source; the model
  computes with exact rationals.\<close>

record search_result =
  path :: string
  content :: string
  score :: rat
  line_number :: nat
  match_context :: string
  search_type :: string
  highlights :: "string list"

text \<open>The dictionary that \<open>_find_matches\<close> returns.\<close>

record match_info =
  m_line_number :: nat
  m_context :: string
  m_highlights :: "string list"

text \<open>
  The loop \<open>for i, line in enumerate(lines)\<close>. The arguments are the lowered query, the
  context width, all the lines, the index \<open>i\<close>, the lines from index \<open>i\<close> on, and the three
  variables \<open>first_match_line\<close>, \<open>context\<close> and \<open>highlights\<close> of the source. Every matching
  line assigns \<open>first_match_line\<close> and \<open>context\<close> again; the loop stops at the third
  highlight.
\<close>

fun find_matches_loop ::
  "string \<Rightarrow> nat \<Rightarrow> string list \<Rightarrow> nat \<Rightarrow> string list \<Rightarrow> match_info \<Rightarrow> match_info" where
  "find_matches_loop query_lower context_lines lines i [] st = st"
| "find_matches_loop query_lower context_lines lines i (line # rest) st =
     (if contains query_lower (py_lower line)
      then (let first_match_line = i + 1;
                start = nat (max 0 (int i - int context_lines));
                end = min (length lines) (i + context_lines + 1);
                context = py_join [newline] (slice lines start end);
                highlights' = m_highlights st @ [py_strip line];
                st' = \<lparr>m_line_number = first_match_line, m_context = context,
                       m_highlights = highlights'\<rparr>
            in if 3 \<le> length highlights' then st'
               else find_matches_loop query_lower context_lines lines (i + 1) rest st')
      else find_matches_loop query_lower context_lines lines (i + 1) rest st)"

text \<open>The parameter \<open>body\<close> is the \<open>content\<close> of the source.\<close>

definition find_matches :: "string \<Rightarrow> string \<Rightarrow> nat \<Rightarrow> match_info" where
  "find_matches body query context_lines =
     (let lines = split_lines body;
          query_lower = py_lower query
      in find_matches_loop query_lower context_lines lines 0 lines
           \<lparr>m_line_number = 0, m_context = [], m_highlights = []\<rparr>)"

text \<open>What the specification asks of the extractor on a content with a matching line: the
  first matching line decides the line number and the context.\<close>

definition matching_indices :: "string \<Rightarrow> string list \<Rightarrow> nat list" where
  "matching_indices query lines =
     filter (\<lambda>i. contains (py_lower query) (py_lower (lines ! i))) [0 ..< length lines]"

definition spec_find_matches :: "string \<Rightarrow> string \<Rightarrow> match_info" where
  "spec_find_matches body query =
     (let lines = split_lines body in
      case matching_indices query lines of
        [] \<Rightarrow> \<lparr>m_line_number = 0, m_context = [], m_highlights = []\<rparr>
      | i # rest \<Rightarrow>
          \<lparr>m_line_number = i + 1,
           m_context = py_join [newline] (slice lines (i - 2) (min (length lines) (i + 3))),
           m_highlights = map (\<lambda>j. py_strip (lines ! j)) (take 3 (i # rest))\<rparr>)"


section \<open>The stored file table, as the planners read it\<close>

text \<open>One row of the table \<open>table\<close>.\<close>

record file_row =
  row_id :: nat
  f_path :: string
  f_content :: string
  f_language :: string
  f_size :: nat
  f_last_modified :: string
  f_content_hash :: string
  f_indexed_at :: string

text \<open>Python exceptions that the source raises or distinguishes: \<open>ImportError\<close>,
  \<open>sqlite3.OperationalError\<close> (with its message), \<open>ValueError\<close> and any other
  \<open>Exception\<close>.\<close>

datatype py_error =
  ImportError string | OperationalError string | ValueError string | OtherError string

text \<open>An optional argument is used when it is truthy: present and not empty.\<close>

definition truthy :: "string option \<Rightarrow> bool" where
  "truthy x = (case x of None \<Rightarrow> False | Some s \<Rightarrow> s \<noteq> [])"

text \<open>SQL \<open>LIMIT n\<close>: a negative limit is no limit.\<close>

definition sql_limit :: "int \<Rightarrow> 'a list \<Rightarrow> 'a list" where
  "sql_limit n xs = (if n < 0 then xs else take (nat n) xs)"

text \<open>SQLite's \<open>text LIKE pattern\<close>: \<open>%\<close> stands for any run of characters, \<open>_\<close> for one
  character, and ASCII letters compare without case.\<close>

definition ascii_lower :: "char \<Rightarrow> char" where
  "ascii_lower c =
     (let n = (of_char c :: nat) in if 65 \<le> n \<and> n \<le> 90 then char_of (n + 32) else c)"

fun sql_like :: "string \<Rightarrow> string \<Rightarrow> bool" where
  "sql_like [] [] = True"
| "sql_like (c # cs) [] = False"
| "sql_like [] (p # ps) = (p = CHR ''%'' \<and> sql_like [] ps)"
| "sql_like (c # cs) (p # ps) =
     (if p = CHR ''%'' then sql_like (c # cs) ps \<or> sql_like cs (p # ps)
      else (p = CHR ''_'' \<or> ascii_lower p = ascii_lower c) \<and> sql_like cs ps)"


section \<open>Fallback planner and full-text planner\<close>

text \<open>The rows that \<open>_fallback_search\<close> selects: \<open>content LIKE '%query%'\<close>, the language and
  path filters when given, in table order, limited.\<close>

definition fallback_rows ::
  "file_row list \<Rightarrow> string \<Rightarrow> int \<Rightarrow> string option \<Rightarrow> string option \<Rightarrow> file_row list" where
  "fallback_rows table query limit language path_filter =
     sql_limit limit
       (filter (\<lambda>r. sql_like (f_content r) (''%'' @ query @ ''%'')
                 \<and> (if truthy language then f_language r = the language else True)
                 \<and> (if truthy path_filter
                     then sql_like (f_path r) (''%'' @ the path_filter @ ''%'') else True))
          table)"

definition fallback_search ::
  "file_row list \<Rightarrow> string \<Rightarrow> int \<Rightarrow> string option \<Rightarrow> string option \<Rightarrow> search_result list" where
  "fallback_search table query limit language path_filter =
     map (\<lambda>r. let match_info = find_matches (f_content r) query 2 in
              \<lparr>path = f_path r, content = take 500 (f_content r), score = 1,
               line_number = m_line_number match_info,
               match_context = m_context match_info,
               search_type = ''fulltext'',
               highlights = m_highlights match_info\<rparr>)
       (fallback_rows table query limit language path_filter)"

text \<open>
  The FTS5 engine is outside the repository: it is a parameter. Given the sanitized query,
  the two filters and the limit it either raises or returns rows
  \<open>(path, content, language, bm25)\<close> in rank order.
\<close>

type_synonym fts_engine =
  "string \<Rightarrow> string option \<Rightarrow> string option \<Rightarrow> int \<Rightarrow> py_error + (string \<times> string \<times> string \<times> rat) list"

definition fulltext_search ::
  "fts_engine \<Rightarrow> file_row list \<Rightarrow> string \<Rightarrow> int \<Rightarrow> string option \<Rightarrow> string option
     \<Rightarrow> py_error + search_result list" where
  "fulltext_search engine table query limit language path_filter =
     (let fts_query = prepare_fts_query query in
      case engine fts_query language path_filter limit of
        Inl (OperationalError msg) \<Rightarrow>
          if contains ''fts5'' (py_lower msg)
          then Inr (fallback_search table query limit language path_filter)
          else Inl (OperationalError msg)
      | Inl e \<Rightarrow> Inl e
      | Inr rows \<Rightarrow>
          Inr (map (\<lambda>(p, c, lang, bm25).
                      let match_info = find_matches c query 2 in
                      \<lparr>path = p, content = take 500 c, score = \<bar>bm25\<bar>,
                       line_number = m_line_number match_info,
                       match_context = m_context match_info,
                       search_type = ''fulltext'',
                       highlights = m_highlights match_info\<rparr>) rows))"


section \<open>Semantic and hybrid planners\<close>

text \<open>
  The semantic backend is the optional module \<open>.semantic\<close>, a parameter: importing and
  calling it either raises or returns results. A backend that is not installed raises
  \<open>ImportError\<close>.
\<close>

type_synonym semantic_backend =
  "string \<Rightarrow> int \<Rightarrow> string option \<Rightarrow> string option \<Rightarrow> py_error + search_result list"

definition not_installed :: semantic_backend where
  "not_installed query limit language path_filter =
     Inl (ImportError ''No module named codex_lens.semantic'')"

definition semantic_search ::
  "fts_engine \<Rightarrow> file_row list \<Rightarrow> semantic_backend \<Rightarrow> string \<Rightarrow> int \<Rightarrow> string option
     \<Rightarrow> string option \<Rightarrow> py_error + search_result list" where
  "semantic_search engine table semantic query limit language path_filter =
     (case semantic query limit language path_filter of
        Inl (ImportError msg) \<Rightarrow> fulltext_search engine table query limit language path_filter
      | Inl e \<Rightarrow> Inl e
      | Inr results \<Rightarrow> Inr results)"

definition rrf_k :: nat where
  "rrf_k = 60"

text \<open>\<open>d.get(key, 0)\<close> on a dictionary kept as an association list in insertion order;
  \<open>AList.update\<close> is the assignment \<open>d[key] = value\<close>.\<close>

definition dict_get :: "(string \<times> rat) list \<Rightarrow> string \<Rightarrow> rat" where
  "dict_get d key = (case map_of d key of None \<Rightarrow> 0 | Some v \<Rightarrow> v)"

text \<open>The bodies of the two fusion loops, on the pair \<open>(scores, results_map)\<close>.\<close>

definition add_fulltext ::
  "nat \<times> search_result \<Rightarrow> (string \<times> rat) list \<times> (string \<times> search_result) list
     \<Rightarrow> (string \<times> rat) list \<times> (string \<times> search_result) list" where
  "add_fulltext = (\<lambda>(rank, result) (scores, results_map).
     let rrf_score = 1 / of_nat (rrf_k + rank + 1) in
     (AList.update (path result) (dict_get scores (path result) + rrf_score) scores,
      AList.update (path result) result results_map))"

definition add_semantic ::
  "nat \<times> search_result \<Rightarrow> (string \<times> rat) list \<times> (string \<times> search_result) list
     \<Rightarrow> (string \<times> rat) list \<times> (string \<times> search_result) list" where
  "add_semantic = (\<lambda>(rank, result) (scores, results_map).
     let rrf_score = 1 / of_nat (rrf_k + rank + 1) in
     (AList.update (path result) (dict_get scores (path result) + rrf_score) scores,
      if path result \<in> fst ` set results_map then results_map
      else AList.update (path result) result results_map))"

definition rrf_scores ::
  "search_result list \<Rightarrow> search_result list
     \<Rightarrow> (string \<times> rat) list \<times> (string \<times> search_result) list" where
  "rrf_scores fulltext_results semantic_results =
     fold add_semantic (enumerate 0 semantic_results)
       (fold add_fulltext (enumerate 0 fulltext_results) ([], []))"

text \<open>\<open>sorted(scores.keys(), key=lambda p: scores[p], reverse=True)\<close>: a stable sort, highest
  score first.\<close>

definition sorted_paths :: "(string \<times> rat) list \<Rightarrow> string list" where
  "sorted_paths scores = sort_key (\<lambda>p. - dict_get scores p) (map fst scores)"

definition rrf_fuse :: "search_result list \<Rightarrow> search_result list \<Rightarrow> int \<Rightarrow> search_result list" where
  "rrf_fuse fulltext_results semantic_results limit =
     (let (scores, results_map) = rrf_scores fulltext_results semantic_results in
      map (\<lambda>p. (the (map_of results_map p))\<lparr>score := dict_get scores p, search_type := ''hybrid''\<rparr>)
        (py_take limit (sorted_paths scores)))"

definition hybrid_search ::
  "fts_engine \<Rightarrow> file_row list \<Rightarrow> semantic_backend \<Rightarrow> string \<Rightarrow> int \<Rightarrow> string option
     \<Rightarrow> string option \<Rightarrow> py_error + search_result list" where
  "hybrid_search engine table semantic query limit language path_filter =
     (case fulltext_search engine table query (limit * 2) language path_filter of
        Inl e \<Rightarrow> Inl e
      | Inr fulltext_results \<Rightarrow>
          (case semantic_search engine table semantic query (limit * 2) language path_filter of
             Inl e \<Rightarrow> Inr (py_take limit fulltext_results)
           | Inr semantic_results \<Rightarrow> Inr (rrf_fuse fulltext_results semantic_results limit)))"

subsection \<open>Reciprocal Rank Fusion in the words of the specification\<close>





section \<open>Symbol planner (\<open>SearchEngine.search_symbol\<close>)\<close>

text \<open>
  The ten regular expressions of the source use only these constructs: a literal string
  (also \<open>re.escape(symbol)\<close>, escaped brackets and braces), \<open>\s*\<close>, \<open>\s+\<close>, a character
  class such as \<open>[:\(]\<close>, and an alternation of literals such as \<open>(const|let|var)\<close>.
\<close>

datatype rx = Lit string | Ws0 | Ws1 | OneOf "char list" | Alt "string list"

text \<open>The first alternative that succeeds, as a backtracking matcher tries them.\<close>

fun first_some :: "('a \<Rightarrow> 'b option) \<Rightarrow> 'a list \<Rightarrow> 'b option" where
  "first_some f [] = None"
| "first_some f (x # xs) = (case f x of Some y \<Rightarrow> Some y | None \<Rightarrow> first_some f xs)"

text \<open>
  One construct in front of the rest of the pattern \<open>k\<close>; the result is the length of the
  match at the start of \<open>s\<close>. Whitespace repetition is greedy: the longest run first, then
  shorter ones.
\<close>

definition rx_step :: "rx \<Rightarrow> (string \<Rightarrow> nat option) \<Rightarrow> string \<Rightarrow> nat option" where
  "rx_step item k s =
     (case item of
        Lit l \<Rightarrow>
          if prefix l s then map_option (\<lambda>n. length l + n) (k (drop (length l) s)) else None
      | Ws0 \<Rightarrow>
          first_some (\<lambda>n. map_option (\<lambda>m. n + m) (k (drop n s)))
            (rev [0 ..< Suc (length (takeWhile py_isspace s))])
      | Ws1 \<Rightarrow>
          first_some (\<lambda>n. map_option (\<lambda>m. n + m) (k (drop n s)))
            (rev [1 ..< Suc (length (takeWhile py_isspace s))])
      | OneOf cs \<Rightarrow>
          (case s of [] \<Rightarrow> None
           | c # s' \<Rightarrow> if c \<in> set cs then map_option Suc (k s') else None)
      | Alt as \<Rightarrow>
          first_some (\<lambda>a. if prefix a s
                         then map_option (\<lambda>n. length a + n) (k (drop (length a) s)) else None) as)"

primrec rx_match :: "rx list \<Rightarrow> string \<Rightarrow> nat option" where
  "rx_match [] = (\<lambda>s. Some 0)"
| "rx_match (item # rest) = rx_step item (rx_match rest)"

text \<open>
  \<open>re.finditer\<close>: the matches from left to right, without overlap, each as its start offset
  and its text. The second argument is the offset of the rest of the string, the third the
  number of characters still covered by the previous match.
\<close>

fun finditer_scan :: "rx list \<Rightarrow> nat \<Rightarrow> nat \<Rightarrow> string \<Rightarrow> (nat \<times> string) list" where
  "finditer_scan p off skip [] =
     (case rx_match p [] of Some n \<Rightarrow> (if skip = 0 then [(off, [])] else []) | None \<Rightarrow> [])"
| "finditer_scan p off (Suc k) (c # cs) = finditer_scan p (Suc off) k cs"
| "finditer_scan p off 0 (c # cs) =
     (case rx_match p (c # cs) of
        None \<Rightarrow> finditer_scan p (Suc off) 0 cs
      | Some n \<Rightarrow> (off, take n (c # cs)) # finditer_scan p (Suc off) (n - 1) cs)"

definition finditer :: "rx list \<Rightarrow> string \<Rightarrow> (nat \<times> string) list" where
  "finditer p s = finditer_scan p 0 0 s"

text \<open>The dictionary \<open>patterns\<close>, in insertion order.\<close>

definition patterns :: "string \<Rightarrow> (string \<times> rx list list) list" where
  "patterns symbol =
     [(''function'',
        [[Lit ''def'', Ws1, Lit symbol, Ws0, Lit ''(''],
         [Lit ''function'', Ws1, Lit symbol, Ws0, Lit ''(''],
         [Lit ''func'', Ws1, Lit symbol, Ws0, Lit ''(''],
         [Lit ''fn'', Ws1, Lit symbol, Ws0, Lit ''('']]),
      (''class'',
        [[Lit ''class'', Ws1, Lit symbol, Ws0, OneOf '':(''],
         [Lit ''struct'', Ws1, Lit symbol, Ws0, Lit ''{''],
         [Lit ''interface'', Ws1, Lit symbol, Ws0, Lit ''{'']]),
      (''variable'',
        [[Alt [''const'', ''let'', ''var''], Ws1, Lit symbol, Ws0, Lit ''=''],
         [Lit symbol, Ws0, Lit '':=''],
         [Alt [''let'', ''const''], Ws1, Lit symbol, Ws0, Lit '':'']])]"

text \<open>\<open>if symbol_type and symbol_type in patterns\<close>, else every pattern of every kind.\<close>

definition search_patterns :: "string \<Rightarrow> string option \<Rightarrow> rx list list" where
  "search_patterns symbol symbol_type =
     (if truthy symbol_type \<and> the symbol_type \<in> set (map fst (patterns symbol))
      then the (map_of (patterns symbol) (the symbol_type))
      else concat (map snd (patterns symbol)))"

text \<open>The first pattern with a match decides the file (\<open>break  # One result per file\<close>).\<close>

definition first_matching :: "rx list list \<Rightarrow> string \<Rightarrow> (nat \<times> string) list option" where
  "first_matching ps body =
     first_some (\<lambda>p. case finditer p body of [] \<Rightarrow> None | m # ms \<Rightarrow> Some (m # ms)) ps"

definition symbol_result :: "file_row \<Rightarrow> (nat \<times> string) list \<Rightarrow> search_result" where
  "symbol_result row matches =
     (let body = f_content row;
          first_start = (case matches of [] \<Rightarrow> 0 | m # ms \<Rightarrow> fst m);
          line_number' = count_list (take first_start body) newline + 1;
          lines = split_lines body;
          start = nat (max 0 (int line_number' - 2));
          end = min (length lines) (line_number' + 3)
      in \<lparr>path = f_path row, content = take 500 body, score = of_nat (length matches),
          line_number = line_number',
          match_context = py_join [newline] (slice lines start end),
          search_type = ''symbol'',
          highlights = map snd (take 3 matches)\<rparr>)"

text \<open>The loop over the rows, with the list \<open>results\<close> of the source: after each row the
  loop stops as soon as \<open>len(results) >= limit\<close>.\<close>

fun symbol_loop :: "rx list list \<Rightarrow> int \<Rightarrow> file_row list \<Rightarrow> search_result list \<Rightarrow> search_result list" where
  "symbol_loop ps limit [] results = results"
| "symbol_loop ps limit (row # rows) results =
     (let results' = (case first_matching ps (f_content row) of
                        None \<Rightarrow> results
                      | Some matches \<Rightarrow> results @ [symbol_result row matches])
      in if limit \<le> int (length results') then results'
         else symbol_loop ps limit rows results')"

text \<open>\<open>results.sort(key=lambda r: r.score, reverse=True)\<close> is a stable sort, highest score
  first.\<close>

definition sort_by_score :: "search_result list \<Rightarrow> search_result list" where
  "sort_by_score results = sort_key (\<lambda>r. - score r) results"

definition search_symbol :: "file_row list \<Rightarrow> string \<Rightarrow> string option \<Rightarrow> int \<Rightarrow> search_result list" where
  "search_symbol table symbol symbol_type limit =
     py_take limit (sort_by_score (symbol_loop (search_patterns symbol symbol_type) limit table []))"

text \<open>What the specification asks of the ranking: every stored file is scored, the scored
  files are sorted, and the list is truncated afterwards.\<close>

definition spec_search_symbol :: "file_row list \<Rightarrow> string \<Rightarrow> string option \<Rightarrow> int \<Rightarrow> search_result list" where
  "spec_search_symbol table symbol symbol_type limit =
     py_take limit
       (sort_by_score
          (concat (map (\<lambda>row. case first_matching (search_patterns symbol symbol_type) (f_content row) of
                                None \<Rightarrow> [] | Some matches \<Rightarrow> [symbol_result row matches]) table)))"


section \<open>Ignore matcher (\<open>CodeIndexer._should_ignore\<close>)\<close>

text \<open>\<open>DEFAULT_IGNORE_PATTERNS\<close> of \<open>models.py\<close>.\<close>

definition DEFAULT_IGNORE_PATTERNS :: "string list" where
  "DEFAULT_IGNORE_PATTERNS =
     [''node_modules'', ''__pycache__'', ''.git'', ''.svn'', ''.hg'', ''venv'', ''.venv'',
      ''env'', ''.env'', ''dist'', ''build'', ''target'', ''.idea'', ''.vscode'',
      ''*.pyc'', ''*.pyo'', ''*.class'', ''*.o'', ''*.so'', ''*.dll'', ''*.exe'',
      ''*.min.js'', ''*.min.css'', ''package-lock.json'', ''yarn.lock'', ''pnpm-lock.yaml'',
      ''Cargo.lock'', ''*.map'']"

text \<open>
  \<open>fnmatch.fnmatch(name, pattern)\<close> on a POSIX system, for patterns made of literal
  characters, \<open>*\<close> (any run of characters, \<open>/\<close> included) and \<open>?\<close> (one character). The
  whole name has to match. Bracket expressions are not modelled; no default pattern has
  one.
\<close>

fun fnmatch :: "string \<Rightarrow> string \<Rightarrow> bool" where
  "fnmatch [] [] = True"
| "fnmatch (c # cs) [] = False"
| "fnmatch [] (p # ps) = (p = CHR ''*'' \<and> fnmatch [] ps)"
| "fnmatch (c # cs) (p # ps) =
     (if p = CHR ''*'' then fnmatch (c # cs) ps \<or> fnmatch cs (p # ps)
      else (p = CHR ''?'' \<or> p = c) \<and> fnmatch cs ps)"

text \<open>
  A path relative to the indexing root is the list of its components, the file name last.
  \<open>str(path.relative_to(root))\<close> joins them with \<open>/\<close>, and \<open>.parents\<close> lists the proper
  prefixes as paths, the longest first, ending with \<open>.\<close>.
\<close>

definition rel_path_str :: "string list \<Rightarrow> string" where
  "rel_path_str comps = py_join ''/'' comps"

definition rel_parents :: "string list \<Rightarrow> string list" where
  "rel_parents comps = map (\<lambda>n. py_join ''/'' (take n comps)) (rev [1 ..< length comps]) @ [''.'']"

text \<open>\<open>path.name\<close>: the last component.\<close>

definition path_name :: "string list \<Rightarrow> string" where
  "path_name comps = (case rev comps of [] \<Rightarrow> [] | n # _ \<Rightarrow> n)"

text \<open>The loops return \<open>True\<close> at the first hit, so the result is a disjunction over the
  patterns and, for each pattern, over the parents.\<close>

definition should_ignore :: "string list \<Rightarrow> string list \<Rightarrow> bool" where
  "should_ignore ignore_patterns comps =
     list_ex (\<lambda>pattern.
         fnmatch (path_name comps) pattern
       \<or> fnmatch (rel_path_str comps) pattern
       \<or> list_ex (\<lambda>parent. fnmatch parent pattern \<or> parent = pattern) (rel_parents comps))
       ignore_patterns"

text \<open>The property that the specification states: some directory component, at any depth,
  equals a pattern.\<close>

definition has_ignored_component :: "string list \<Rightarrow> string list \<Rightarrow> bool" where
  "has_ignored_component ignore_patterns comps =
     list_ex (\<lambda>d. d \<in> set ignore_patterns) (butlast comps)"


section \<open>Language classifier and scanner\<close>

text \<open>\<open>LANGUAGE_MAP\<close> of \<open>models.py\<close>.\<close>

definition LANGUAGE_MAP :: "(string \<times> string) list" where
  "LANGUAGE_MAP =
     [(''.py'', ''python''), (''.js'', ''javascript''), (''.ts'', ''typescript''),
      (''.tsx'', ''typescript''), (''.jsx'', ''javascript''), (''.java'', ''java''),
      (''.c'', ''c''), (''.cpp'', ''cpp''), (''.cc'', ''cpp''), (''.h'', ''c''),
      (''.hpp'', ''cpp''), (''.go'', ''go''), (''.rs'', ''rust''), (''.rb'', ''ruby''),
      (''.php'', ''php''), (''.swift'', ''swift''), (''.kt'', ''kotlin''),
      (''.scala'', ''scala''), (''.cs'', ''csharp''), (''.m'', ''objectivec''),
      (''.sh'', ''shell''), (''.bash'', ''shell''), (''.zsh'', ''shell''),
      (''.ps1'', ''powershell''), (''.sql'', ''sql''), (''.html'', ''html''),
      (''.css'', ''css''), (''.scss'', ''scss''), (''.less'', ''less''), (''.json'', ''json''),
      (''.yaml'', ''yaml''), (''.yml'', ''yaml''), (''.xml'', ''xml''), (''.md'', ''markdown''),
      (''.toml'', ''toml''), (''.ini'', ''ini''), (''.cfg'', ''ini''), (''.vue'', ''vue''),
      (''.svelte'', ''svelte'')]"

text \<open>\<open>path.suffix\<close>: the name from its last dot on, unless that dot is the first or the
  last character of the name.\<close>

definition py_suffix :: "string \<Rightarrow> string" where
  "py_suffix name =
     (if CHR ''.'' \<in> set name
      then (let i = length name - 1 - length (takeWhile (\<lambda>c. c \<noteq> CHR ''.'') (rev name))
            in if 0 < i \<and> i < length name - 1 then drop i name else [])
      else [])"

definition detect_language :: "string list \<Rightarrow> string" where
  "detect_language comps =
     (case map_of LANGUAGE_MAP (py_lower (py_suffix (path_name comps))) of
        None \<Rightarrow> ''unknown'' | Some l \<Rightarrow> l)"

text \<open>A regular file below the root: its relative path, its text when it can be read and
  decoded, and what \<open>stat\<close> reports.\<close>

record fs_file =
  rel :: "string list"
  data :: "string option"
  st_size :: nat
  st_mtime :: string

definition scan_files :: "string list \<Rightarrow> fs_file list \<Rightarrow> fs_file list" where
  "scan_files ignore_patterns tree =
     filter (\<lambda>f. \<not> should_ignore ignore_patterns (rel f)
               \<and> py_lower (py_suffix (path_name (rel f))) \<in> set (map fst LANGUAGE_MAP)) tree"


section \<open>Storage: the file table, the full-text mirror and the statistics\<close>

text \<open>\<open>IndexedFile\<close> and \<open>IndexStats\<close> of \<open>models.py\<close>. The dictionary \<open>languages\<close> is kept as
  an association list in insertion order.\<close>

record indexed_file =
  i_path :: string
  i_content :: string
  i_language :: string
  i_size :: nat
  i_last_modified :: string
  i_content_hash :: string

record index_stats =
  total_files :: nat
  total_lines :: nat
  total_size :: nat
  languages :: "(string \<times> nat) list"
  last_indexed :: "string option"
  index_version :: string

text \<open>
  The database. \<open>files\<close> is the table in rowid order and \<open>seq\<close> the largest rowid ever given
  out (\<open>AUTOINCREMENT\<close>). \<open>fts\<close> is the FTS5 index \<open>files_fts\<close>: for each rowid the triple
  \<open>(path, content, language)\<close> that was tokenized into it, which is what \<open>MATCH\<close> answers
  from. \<open>stats\<close> is the row of \<open>index_stats\<close> under the key \<open>stats\<close>.
\<close>

record store =
  files :: "file_row list"
  fts :: "(nat \<times> string \<times> string \<times> string) list"
  seq :: nat
  stats :: "index_stats option"

text \<open>\<open>_init_database\<close> on a new directory.\<close>

definition init_database :: store where
  "init_database = \<lparr>files = [], fts = [], seq = 0, stats = None\<rparr>"

text \<open>The three triggers. \<open>files_ai\<close> adds the new row to the index; \<open>files_ad\<close> issues the
  FTS5 \<open>delete\<close> command for the old rowid.\<close>

definition trigger_ai :: "file_row \<Rightarrow> store \<Rightarrow> store" where
  "trigger_ai new st = st\<lparr>fts := fts st @ [(row_id new, f_path new, f_content new, f_language new)]\<rparr>"

definition trigger_ad :: "file_row \<Rightarrow> store \<Rightarrow> store" where
  "trigger_ad old st = st\<lparr>fts := filter (\<lambda>e. fst e \<noteq> row_id old) (fts st)\<rparr>"

text \<open>
  \<open>_save_file\<close>: \<open>INSERT OR REPLACE INTO files\<close>. A row with the same path violates the
  \<open>UNIQUE\<close> constraint and is deleted by the \<open>REPLACE\<close> conflict resolution; SQLite fires
  delete triggers for such rows only when \<open>recursive_triggers\<close> is on, which the source never
  sets, so \<open>files_ad\<close> does not run. The new row gets a fresh rowid and \<open>files_ai\<close> runs.
\<close>

definition save_file :: "string \<Rightarrow> indexed_file \<Rightarrow> store \<Rightarrow> store" where
  "save_file now indexed_file st =
     (let new = \<lparr>row_id = Suc (seq st), f_path = i_path indexed_file,
                 f_content = i_content indexed_file, f_language = i_language indexed_file,
                 f_size = i_size indexed_file, f_last_modified = i_last_modified indexed_file,
                 f_content_hash = i_content_hash indexed_file, f_indexed_at = now\<rparr>;
          kept = filter (\<lambda>r. f_path r \<noteq> i_path indexed_file) (files st)
      in trigger_ai new (st\<lparr>files := kept @ [new], seq := Suc (seq st)\<rparr>))"

text \<open>\<open>remove_file\<close>: \<open>DELETE FROM files WHERE path = ?\<close>; \<open>files_ad\<close> runs for each deleted
  row.\<close>

definition remove_file :: "string \<Rightarrow> store \<Rightarrow> store" where
  "remove_file p st =
     fold trigger_ad (filter (\<lambda>r. f_path r = p) (files st))
       (st\<lparr>files := filter (\<lambda>r. f_path r \<noteq> p) (files st)\<rparr>)"

text \<open>
  \<open>clear_index\<close>: \<open>DELETE FROM files\<close> runs \<open>files_ad\<close> for each row. \<open>DELETE FROM files_fts\<close>
  on an external-content table visits the rows of the content table, which is empty by
  then, and removes nothing more. \<open>DELETE FROM index_stats\<close> drops the statistics.
\<close>

definition clear_index :: "store \<Rightarrow> store" where
  "clear_index st = (fold trigger_ad (files st) (st\<lparr>files := []\<rparr>))\<lparr>stats := None\<rparr>"

text \<open>The triples of the file table and of the mirror.\<close>

definition table_triples :: "store \<Rightarrow> (string \<times> string \<times> string) set" where
  "table_triples st = set (map (\<lambda>r. (f_path r, f_content r, f_language r)) (files st))"

definition mirror_triples :: "store \<Rightarrow> (string \<times> string \<times> string) set" where
  "mirror_triples st = set (map snd (fts st))"

definition mirror_entries_for :: "string \<Rightarrow> store \<Rightarrow> (nat \<times> string \<times> string \<times> string) list" where
  "mirror_entries_for p st = filter (\<lambda>e. fst (snd e) = p) (fts st)"

text \<open>\<open>_get_file_hash\<close>, \<open>_save_stats\<close> and \<open>get_stats\<close>.\<close>

definition get_file_hash :: "store \<Rightarrow> string \<Rightarrow> string option" where
  "get_file_hash st p =
     (case filter (\<lambda>r. f_path r = p) (files st) of [] \<Rightarrow> None | r # _ \<Rightarrow> Some (f_content_hash r))"

definition save_stats :: "index_stats \<Rightarrow> store \<Rightarrow> store" where
  "save_stats s st = st\<lparr>stats := Some s\<rparr>"

definition get_stats :: "store \<Rightarrow> index_stats option" where
  "get_stats st = stats st"


section \<open>Indexer (\<open>CodeIndexer.index_file\<close>, \<open>CodeIndexer.index_directory\<close>)\<close>

text \<open>
  The content fingerprint, the first 16 hexadecimal digits of SHA-256, is a parameter
  \<open>sha16\<close>; the clock is the parameter \<open>now\<close>. \<open>index_file\<close> returns \<open>None\<close> for a file that
  cannot be read and for a file whose stored fingerprint equals the new one.
\<close>

definition index_file :: "(string \<Rightarrow> string) \<Rightarrow> store \<Rightarrow> fs_file \<Rightarrow> indexed_file option" where
  "index_file sha16 st f =
     (case data f of
        None \<Rightarrow> None
      | Some text \<Rightarrow>
          (let rel_path = rel_path_str (rel f);
               indexed_file = \<lparr>i_path = rel_path, i_content = text,
                                i_language = detect_language (rel f), i_size = st_size f,
                                i_last_modified = st_mtime f, i_content_hash = sha16 text\<rparr>;
               stored_hash = get_file_hash st rel_path
           in if stored_hash = Some (i_content_hash indexed_file) then None
              else Some indexed_file))"

text \<open>The variables of the loop in \<open>index_directory\<close>.\<close>

record pass_state =
  p_store :: store
  indexed_count :: nat
  skipped_count :: nat
  p_total_lines :: nat
  p_total_size :: nat
  p_languages :: "(string \<times> nat) list"

definition lang_get :: "(string \<times> nat) list \<Rightarrow> string \<Rightarrow> nat" where
  "lang_get d key = (case map_of d key of None \<Rightarrow> 0 | Some v \<Rightarrow> v)"

definition index_step :: "(string \<Rightarrow> string) \<Rightarrow> string \<Rightarrow> fs_file \<Rightarrow> pass_state \<Rightarrow> pass_state" where
  "index_step sha16 now f ps =
     (case index_file sha16 (p_store ps) f of
        Some indexed_file \<Rightarrow>
          ps\<lparr>p_store := save_file now indexed_file (p_store ps),
             indexed_count := indexed_count ps + 1,
             p_total_lines := p_total_lines ps + (count_list (i_content indexed_file) newline + 1),
             p_total_size := p_total_size ps + i_size indexed_file,
             p_languages := AList.update (i_language indexed_file)
                              (lang_get (p_languages ps) (i_language indexed_file) + 1)
                              (p_languages ps)\<rparr>
      | None \<Rightarrow> ps\<lparr>skipped_count := skipped_count ps + 1\<rparr>)"

definition index_pass :: "(string \<Rightarrow> string) \<Rightarrow> string \<Rightarrow> string list \<Rightarrow> store \<Rightarrow> fs_file list \<Rightarrow> pass_state" where
  "index_pass sha16 now ignore_patterns st tree =
     fold (index_step sha16 now) (scan_files ignore_patterns tree)
       \<lparr>p_store = st, indexed_count = 0, skipped_count = 0, p_total_lines = 0,
        p_total_size = 0, p_languages = []\<rparr>"

text \<open>\<open>index_directory\<close>: the directory is \<open>None\<close> when the path is not a directory, else
  the regular files below it in the order of the traversal. The result is the returned
  statistics and the database afterwards.\<close>

definition index_directory ::
  "(string \<Rightarrow> string) \<Rightarrow> string \<Rightarrow> string list \<Rightarrow> store \<Rightarrow> fs_file list option
     \<Rightarrow> py_error + index_stats \<times> store" where
  "index_directory sha16 now ignore_patterns st directory =
     (case directory of
        None \<Rightarrow> Inl (ValueError ''Not a directory'')
      | Some tree \<Rightarrow>
          (let ps = index_pass sha16 now ignore_patterns st tree;
               s = \<lparr>total_files = indexed_count ps, total_lines = p_total_lines ps,
                    total_size = p_total_size ps, languages = p_languages ps,
                    last_indexed = Some now, index_version = ''1.0''\<rparr>
           in Inr (s, save_stats s (p_store ps))))"

section \<open>Properties of the sanitizer\<close>

lemma replace_char_single:
  "py_replace_char old [n] s = map (\<lambda>c. if c = old then n else c) s"
  by (induction s) (simp_all add: py_replace_char_def)

lemma foldl_map_replace:
  "foldl (\<lambda>cleaned ch. map (\<lambda>c. if c = ch then sp else c) cleaned) q chs
     = map (\<lambda>c. if c \<in> set chs then sp else c) q"
  by (induction chs arbitrary: q) (simp_all add: comp_def)

lemma foldl_replace_chars:
  "foldl (\<lambda>cleaned ch. py_replace_char ch [sp] cleaned) q chs
     = map (\<lambda>c. if c \<in> set chs then sp else c) q"
  by (simp add: replace_char_single foldl_map_replace)

lemma rstrip_Nil: "py_rstrip [] = []"
  by (simp add: py_rstrip_def)

lemma rstrip_empty_iff: "py_rstrip t = [] \<longleftrightarrow> (\<forall>c \<in> set t. py_isspace c)"
  by (simp add: py_rstrip_def)

lemma rstrip_nonspace: "\<not> py_isspace c \<Longrightarrow> py_rstrip (c # t) = c # py_rstrip t"
  by (simp add: py_rstrip_def dropWhile_append)

lemma rstrip_space:
  "py_isspace c \<Longrightarrow> py_rstrip (c # t) = (if py_rstrip t = [] then [] else c # py_rstrip t)"
  by (auto simp: py_rstrip_def dropWhile_append)

lemma split_nonempty_acc: "cur \<noteq> [] \<Longrightarrow> split_ws_acc cur s \<noteq> []"
  by (induction s arbitrary: cur) auto

lemma split_empty: "split_ws_acc [] s = [] \<longleftrightarrow> (\<forall>c \<in> set s. py_isspace c)"
  by (induction s) (auto simp: split_nonempty_acc)

lemma collapse_True_head: "collapse_from True s = c # t \<Longrightarrow> \<not> py_isspace c"
  by (induction s) (auto split: if_splits)

lemma collapse_True_spaces:
  "(\<forall>x \<in> set (collapse_from True s). py_isspace x) \<longleftrightarrow> (\<forall>c \<in> set s. py_isspace c)"
  by (induction s) auto

lemma rstrip_collapse_True_empty:
  "py_rstrip (collapse_from True s) = [] \<longleftrightarrow> (\<forall>c \<in> set s. py_isspace c)"
  by (simp add: rstrip_empty_iff collapse_True_spaces)

lemma join_cons: "ys \<noteq> [] \<Longrightarrow> py_join sep (x # ys) = x @ sep @ py_join sep ys"
  by (cases ys) auto

lemma isspace_space: "py_isspace (CHR '' '')"
  by (simp add: py_isspace_def)

lemma join_split_both:
  "(\<forall>cur. cur \<noteq> [] \<longrightarrow> py_join '' '' (split_ws_acc cur s) = cur @ py_rstrip (collapse_from False s))
   \<and> py_join '' '' (split_ws_acc [] s) = py_rstrip (collapse_from True s)"
proof (induction s)
  case Nil
  then show ?case by (simp add: rstrip_Nil)
next
  case (Cons c cs)
  note IH1 = Cons.IH [THEN conjunct1, rule_format]
  note IH2 = Cons.IH [THEN conjunct2]
  show ?case
  proof (cases "py_isspace c")
    case True
    have a: "py_join '' '' (split_ws_acc cur (c # cs)) = cur @ py_rstrip (collapse_from False (c # cs))"
      if "cur \<noteq> []" for cur
    proof (cases "\<forall>d \<in> set cs. py_isspace d")
      case all: True
      then have "split_ws_acc [] cs = []" by (simp add: split_empty)
      moreover from all have "py_rstrip (collapse_from True cs) = []"
        by (simp add: rstrip_collapse_True_empty)
      ultimately show ?thesis using True that by (simp add: rstrip_space isspace_space)
    next
      case nall: False
      then have ne: "split_ws_acc [] cs \<noteq> []" by (simp add: split_empty)
      from nall have ne2: "py_rstrip (collapse_from True cs) \<noteq> []"
        by (simp add: rstrip_collapse_True_empty)
      show ?thesis using True that ne ne2 IH2 by (simp add: rstrip_space isspace_space join_cons)
    qed
    have b: "py_join '' '' (split_ws_acc [] (c # cs)) = py_rstrip (collapse_from True (c # cs))"
      using True IH2 by simp
    from a b show ?thesis by blast
  next
    case False
    have a: "py_join '' '' (split_ws_acc cur (c # cs)) = cur @ py_rstrip (collapse_from False (c # cs))"
      if "cur \<noteq> []" for cur
      using False IH1 [of "cur @ [c]"] by (simp add: rstrip_nonspace)
    have b: "py_join '' '' (split_ws_acc [] (c # cs)) = py_rstrip (collapse_from True (c # cs))"
      using False IH1 [of "[c]"] by (simp add: rstrip_nonspace)
    from a b show ?thesis by blast
  qed
qed

lemma collapse_True_lstrip: "collapse_from True s = py_lstrip (collapse_from False s)"
proof (induction s)
  case Nil then show ?case by (simp add: py_lstrip_def)
next
  case (Cons c cs)
  have h: "dropWhile py_isspace (collapse_from True cs) = collapse_from True cs"
    by (cases "collapse_from True cs") (auto dest: collapse_True_head)
  show ?case using h by (simp add: py_lstrip_def isspace_space)
qed

lemma join_split_strip: "py_join '' '' (py_split s) = py_strip (collapse_ws s)"
  using join_split_both [of s]
  by (simp add: py_split_def py_strip_def collapse_ws_def collapse_True_lstrip)

text \<open>
  Claim C8, as the code has it: a query that contains a space character and does not start
  with a double quote comes back wrapped in double quotes with every embedded double quote
  doubled; every other query comes back with each of the ten reserved characters replaced by
  a space, every run of whitespace collapsed to one space, and the whitespace at both ends
  removed.
\<close>

theorem prepare_fts_query_policy: "prepare_fts_query q = code_sanitize q"
proof (cases "CHR '' '' \<in> set q \<and> \<not> prefix [dquote] q")
  case True
  then show ?thesis
    by (simp add: prepare_fts_query_def code_sanitize_def phrase_query_def py_replace_char_def)
next
  case False
  have fold: "foldl (\<lambda>cleaned ch. py_replace_char ch '' '' cleaned) q special_chars = blank_specials q"
    by (simp only: foldl_replace_chars blank_specials_def)
  from False have "prepare_fts_query q
      = py_join '' '' (py_split (foldl (\<lambda>cleaned ch. py_replace_char ch '' '' cleaned) q special_chars))"
    unfolding prepare_fts_query_def by (rule if_not_P)
  moreover from False have "code_sanitize q = py_strip (collapse_ws (blank_specials q))"
    unfolding code_sanitize_def by (rule if_not_P)
  ultimately show ?thesis
    by (simp only: fold join_split_strip)
qed

text \<open>
  The policy as the specification words it fails on the code twice: a tab is whitespace but
  not a space, so \<open>a<TAB>b\<close> takes the bag-of-words branch; and a query of one
  reserved character comes back empty, not as one space.
\<close>

theorem prepare_fts_query_spec_counterexample:
  "prepare_fts_query [CHR ''a'', CHR 0x09, CHR ''b''] = ''a b''
   \<and> spec_sanitize [CHR ''a'', CHR 0x09, CHR ''b''] = [CHR 0x22, CHR ''a'', CHR 0x09, CHR ''b'', CHR 0x22]
   \<and> prepare_fts_query [CHR ''a'', CHR 0x09, CHR ''b''] \<noteq> spec_sanitize [CHR ''a'', CHR 0x09, CHR ''b'']
   \<and> prepare_fts_query ''('' = []
   \<and> spec_sanitize ''('' = '' ''
   \<and> prepare_fts_query ''('' \<noteq> spec_sanitize ''(''"
  by (simp add: prepare_fts_query_def py_split_def py_isspace_def dquote_def special_chars_def
      py_replace_char_def spec_sanitize_def has_whitespace_def collapse_ws_def
      blank_specials_def phrase_query_def)

section \<open>Reciprocal Rank Fusion orders by both ranks\<close>

























section \<open>The match extractor reports the last of the collected matches\<close>

lemma find_matches_loop_no_match:
  "\<forall>l \<in> set rest. \<not> contains q (py_lower l) \<Longrightarrow> find_matches_loop q w ls i rest st = st"
  by (induction rest arbitrary: i) simp_all

lemma find_matches_none:
  "\<forall>l \<in> set (split_lines body). \<not> contains (py_lower query) (py_lower l)
     \<Longrightarrow> find_matches body query 2 = \<lparr>m_line_number = 0, m_context = [], m_highlights = []\<rparr>"
  by (simp add: find_matches_def find_matches_loop_no_match)

text \<open>
  Claim C4 at a content with two matching lines: the query \<open>os\<close> occurs on lines 1 and 3 of
  \<open>import os / x = 1 / print(os.name)\<close>. The specification asks for line 1 and the context of
  line 1; the loop assigns \<open>first_match_line\<close> and \<open>context\<close> again at line 3 and returns
  line 3.
\<close>

theorem find_matches_reports_last_match:
  "find_matches (''import os'' @ [newline] @ ''x = 1'' @ [newline] @ ''print(os.name)'') ''os'' 2
     = \<lparr>m_line_number = 3,
        m_context = ''import os'' @ [newline] @ ''x = 1'' @ [newline] @ ''print(os.name)'',
        m_highlights = [''import os'', ''print(os.name)'']\<rparr>
   \<and> m_line_number
        (spec_find_matches (''import os'' @ [newline] @ ''x = 1'' @ [newline] @ ''print(os.name)'') ''os'')
       = 1"
  by code_simp

section \<open>Hybrid search without a usable semantic backend\<close>

lemma hybrid_semantic_raises:
  assumes "fulltext_search engine table query (limit * 2) language path_filter = Inr ft"
    and "semantic query (limit * 2) language path_filter = Inl (OtherError msg)"
  shows "hybrid_search engine table semantic query limit language path_filter = Inr (py_take limit ft)"
  using assms by (simp add: hybrid_search_def semantic_search_def)

lemma hybrid_not_installed:
  assumes "fulltext_search engine table query (limit * 2) language path_filter = Inr ft"
  shows "hybrid_search engine table not_installed query limit language path_filter
           = Inr (rrf_fuse ft ft limit)"
  using assms by (simp add: hybrid_search_def semantic_search_def not_installed_def)

text \<open>
  Claim C5 with the backend not installed: \<open>_semantic_search\<close> catches the \<open>ImportError\<close>
  itself and answers with full-text results, so \<open>_hybrid_search\<close> sees no exception and fuses
  the full-text list with itself. With one hit of BM25 score \<open>-3/2\<close> and limit 1, full-text
  search returns score \<open>3/2\<close> and type \<open>fulltext\<close>; hybrid search returns score \<open>2/61\<close> and
  type \<open>hybrid\<close>.
\<close>

theorem hybrid_not_installed_relabels:
  "(let engine = (\<lambda>q language path_filter limit.
                    Inr (sql_limit limit [(''a.py'', ''x = 1'', ''python'', - 3 / 2),
                                          (''b.py'', ''y = x'', ''python'', - 1 / 2)]))
    in fulltext_search engine [] ''x'' 1 None None
         = Inr [\<lparr>path = ''a.py'', content = ''x = 1'', score = 3 / 2, line_number = 1,
                 match_context = ''x = 1'', search_type = ''fulltext'', highlights = [''x = 1'']\<rparr>]
       \<and> hybrid_search engine [] not_installed ''x'' 1 None None
         = Inr [\<lparr>path = ''a.py'', content = ''x = 1'', score = 2 / 61, line_number = 1,
                 match_context = ''x = 1'', search_type = ''hybrid'', highlights = [''x = 1'']\<rparr>])"
  by code_simp

section \<open>Full-text search and the fallback\<close>

lemma fulltext_fts5_error:
  assumes "engine (prepare_fts_query query) language path_filter limit = Inl (OperationalError msg)"
    and "contains ''fts5'' (py_lower msg)"
  shows "fulltext_search engine table query limit language path_filter
           = Inr (fallback_search table query limit language path_filter)"
  using assms by (simp add: fulltext_search_def)

lemma fallback_shape:
  "r \<in> set (fallback_search table query limit language path_filter)
     \<Longrightarrow> score r = 1 \<and> search_type r = ''fulltext''"
  by (auto simp: fallback_search_def Let_def)

text \<open>
  Claim C7 at the query \<open>a{b\<close>: it has no space and no reserved character of the sanitizer,
  so it reaches the engine unchanged. FTS5 reads \<open>a{b\<close> as a column filter and rejects it
  with the message \<open>no such column: b\<close>. The fallback is taken only when the message
  contains \<open>fts5\<close>; this one does not, and the error is raised to the caller.
\<close>

theorem fulltext_reraises_column_error:
  "prepare_fts_query ''a{b'' = ''a{b''
   \<and> \<not> contains ''fts5'' (py_lower ''no such column: b'')
   \<and> fulltext_search (\<lambda>q language path_filter limit.
          if q = ''a{b'' then Inl (OperationalError ''no such column: b'') else Inr [])
        [] ''a{b'' 20 None None
       = Inl (OperationalError ''no such column: b'')"
  by code_simp

section \<open>Symbol search\<close>

lemma search_patterns_unknown:
  assumes "symbol_type \<notin> {Some ''function'', Some ''class'', Some ''variable''}"
  shows "search_patterns symbol symbol_type = search_patterns symbol None"
proof (cases symbol_type)
  case None
  then show ?thesis by simp
next
  case (Some t)
  with assms have "t \<notin> set (map fst (patterns symbol))"
    by (auto simp: patterns_def)
  with Some show ?thesis by (simp add: search_patterns_def truthy_def)
qed

text \<open>
  Claim C10: a symbol type outside \<open>function\<close>, \<open>class\<close> and \<open>variable\<close> is not an error.
  The patterns searched are then the four function patterns, the three class patterns and
  the three variable patterns, in this order; the result is the ranking of the row loop run
  with all the patterns of the table \<open>patterns\<close>; and it is what a call without a symbol
  type returns.
\<close>

theorem search_symbol_unknown_type:
  assumes "symbol_type \<notin> {Some ''function'', Some ''class'', Some ''variable''}"
  shows "search_patterns symbol symbol_type =
           [[Lit ''def'', Ws1, Lit symbol, Ws0, Lit ''(''],
            [Lit ''function'', Ws1, Lit symbol, Ws0, Lit ''(''],
            [Lit ''func'', Ws1, Lit symbol, Ws0, Lit ''(''],
            [Lit ''fn'', Ws1, Lit symbol, Ws0, Lit ''(''],
            [Lit ''class'', Ws1, Lit symbol, Ws0, OneOf '':(''],
            [Lit ''struct'', Ws1, Lit symbol, Ws0, Lit ''{''],
            [Lit ''interface'', Ws1, Lit symbol, Ws0, Lit ''{''],
            [Alt [''const'', ''let'', ''var''], Ws1, Lit symbol, Ws0, Lit ''=''],
            [Lit symbol, Ws0, Lit '':=''],
            [Alt [''let'', ''const''], Ws1, Lit symbol, Ws0, Lit '':'']]
       \<and> search_symbol table symbol symbol_type limit =
           py_take limit
             (sort_by_score (symbol_loop (concat (map snd (patterns symbol))) limit table []))
       \<and> search_symbol table symbol symbol_type limit = search_symbol table symbol None limit"
proof -
  have none: "search_patterns symbol None = concat (map snd (patterns symbol))"
    by (simp add: search_patterns_def truthy_def)
  have eq: "search_patterns symbol symbol_type = concat (map snd (patterns symbol))"
    using search_patterns_unknown [OF assms] none by simp
  have all: "concat (map snd (patterns symbol)) =
           [[Lit ''def'', Ws1, Lit symbol, Ws0, Lit ''(''],
            [Lit ''function'', Ws1, Lit symbol, Ws0, Lit ''(''],
            [Lit ''func'', Ws1, Lit symbol, Ws0, Lit ''(''],
            [Lit ''fn'', Ws1, Lit symbol, Ws0, Lit ''(''],
            [Lit ''class'', Ws1, Lit symbol, Ws0, OneOf '':(''],
            [Lit ''struct'', Ws1, Lit symbol, Ws0, Lit ''{''],
            [Lit ''interface'', Ws1, Lit symbol, Ws0, Lit ''{''],
            [Alt [''const'', ''let'', ''var''], Ws1, Lit symbol, Ws0, Lit ''=''],
            [Lit symbol, Ws0, Lit '':=''],
            [Alt [''let'', ''const''], Ws1, Lit symbol, Ws0, Lit '':'']]"
    by (simp add: patterns_def)
  have a: "search_symbol table symbol symbol_type limit =
           py_take limit
             (sort_by_score (symbol_loop (concat (map snd (patterns symbol))) limit table []))"
    by (simp only: search_symbol_def eq)
  have b: "search_symbol table symbol symbol_type limit = search_symbol table symbol None limit"
    by (simp only: search_symbol_def eq none)
  from eq all a b show ?thesis by (simp only: simp_thms)
qed

text \<open>The symbol type \<open>method\<close> on a table with a Go function, a Python class and a
  JavaScript constant named \<open>run\<close>: all three files are found, each by a pattern of another
  kind.\<close>

theorem search_symbol_unknown_type_witness:
  "(let table =
      [\<lparr>row_id = 1, f_path = ''a.go'', f_content = ''func run() {}'', f_language = ''go'',
        f_size = 13, f_last_modified = ''t0'', f_content_hash = ''h1'', f_indexed_at = ''t1''\<rparr>,
       \<lparr>row_id = 2, f_path = ''b.py'', f_content = ''class run:'', f_language = ''python'',
        f_size = 10, f_last_modified = ''t0'', f_content_hash = ''h2'', f_indexed_at = ''t1''\<rparr>,
       \<lparr>row_id = 3, f_path = ''c.js'', f_content = ''const run = 1'', f_language = ''javascript'',
        f_size = 13, f_last_modified = ''t0'', f_content_hash = ''h3'', f_indexed_at = ''t1''\<rparr>]
    in Some ''method'' \<notin> {Some ''function'', Some ''class'', Some ''variable''}
       \<and> search_symbol table ''run'' (Some ''method'') 20 =
           py_take 20
             (sort_by_score (symbol_loop (concat (map snd (patterns ''run''))) 20 table []))
       \<and> search_symbol table ''run'' (Some ''method'') 20 = search_symbol table ''run'' None 20
       \<and> map (\<lambda>r. (path r, highlights r)) (search_symbol table ''run'' (Some ''method'') 20)
           = [(''a.go'', [''func run('']), (''b.py'', [''class run:'']), (''c.js'', [''const run =''])])"
proof -
  let ?table =
     "[\<lparr>row_id = 1, f_path = ''a.go'', f_content = ''func run() {}'', f_language = ''go'',
        f_size = 13, f_last_modified = ''t0'', f_content_hash = ''h1'', f_indexed_at = ''t1''\<rparr>,
       \<lparr>row_id = 2, f_path = ''b.py'', f_content = ''class run:'', f_language = ''python'',
        f_size = 10, f_last_modified = ''t0'', f_content_hash = ''h2'', f_indexed_at = ''t1''\<rparr>,
       \<lparr>row_id = 3, f_path = ''c.js'', f_content = ''const run = 1'', f_language = ''javascript'',
        f_size = 13, f_last_modified = ''t0'', f_content_hash = ''h3'', f_indexed_at = ''t1''\<rparr>]"
  have h: "Some ''method'' \<notin> {Some ''function'', Some ''class'', Some ''variable''}"
    by simp
  have run: "map (\<lambda>r. (path r, highlights r)) (search_symbol ?table ''run'' (Some ''method'') 20)
           = [(''a.go'', [''func run('']), (''b.py'', [''class run:'']), (''c.js'', [''const run =''])]"
    by code_simp
  note t = search_symbol_unknown_type [OF h, of "''run''" ?table 20]
  from t have a: "search_symbol ?table ''run'' (Some ''method'') 20 =
           py_take 20
             (sort_by_score (symbol_loop (concat (map snd (patterns ''run''))) 20 ?table []))"
    by (rule conjunct1 [OF conjunct2])
  from t have b: "search_symbol ?table ''run'' (Some ''method'') 20
                    = search_symbol ?table ''run'' None 20"
    by (rule conjunct2 [OF conjunct2])
  show ?thesis unfolding Let_def
    by (intro conjI) (rule h, rule a, rule b, rule run)
qed

text \<open>
  Claim C6 with two stored files and limit 1: \<open>a.py\<close> defines \<open>f\<close> once, \<open>b.py\<close> twice. The
  loop stops after \<open>a.py\<close>, the first file with a match, so the result is \<open>a.py\<close> with
  score 1; the best file over the whole table is \<open>b.py\<close> with score 2.
\<close>

theorem search_symbol_stops_before_ranking:
  "(let table =
      [\<lparr>row_id = 1, f_path = ''a.py'', f_content = ''def f(x):'' @ [newline] @ ''    pass'',
        f_language = ''python'', f_size = 18, f_last_modified = ''t0'', f_content_hash = ''h1'',
        f_indexed_at = ''t1''\<rparr>,
       \<lparr>row_id = 2, f_path = ''b.py'',
        f_content = ''def f(x):'' @ [newline] @ ''    pass'' @ [newline] @ ''def f(y):'' @ [newline] @ ''    pass'',
        f_language = ''python'', f_size = 37, f_last_modified = ''t0'', f_content_hash = ''h2'',
        f_indexed_at = ''t1''\<rparr>]
    in map (\<lambda>r. (path r, score r)) (search_symbol table ''f'' (Some ''function'') 1) = [(''a.py'', 1)]
       \<and> map (\<lambda>r. (path r, score r)) (spec_search_symbol table ''f'' (Some ''function'') 1) = [(''b.py'', 2)])"
  by code_simp

section \<open>The ignore matcher tests prefixes, not components\<close>

lemma should_ignore_top_level:
  assumes "d \<in> set ignore_patterns" and "rest \<noteq> []"
  shows "should_ignore ignore_patterns (d # rest)"
proof -
  from assms(2) have "(1::nat) \<in> set (rev [1 ..< length (d # rest)])"
    by (cases rest) (simp_all del: upt_Suc)
  then have "py_join ''/'' (take 1 (d # rest)) \<in> set (rel_parents (d # rest))"
    unfolding rel_parents_def by (metis UnI1 imageI set_append set_map)
  then have "d \<in> set (rel_parents (d # rest))" by simp
  with assms(1) show ?thesis
    by (auto simp: should_ignore_def list_ex_iff)
qed

text \<open>
  Claim C3 at \<open>src/node_modules/foo/bar.js\<close>: the component \<open>node_modules\<close> is a default
  pattern, but the parents of the path are the prefixes \<open>src/node_modules/foo\<close>,
  \<open>src/node_modules\<close>, \<open>src\<close> and \<open>.\<close>, none of which is or matches a default pattern. The
  file is not ignored and the scanner yields it.
\<close>

theorem should_ignore_misses_nested_directory:
  "has_ignored_component DEFAULT_IGNORE_PATTERNS [''src'', ''node_modules'', ''foo'', ''bar.js'']
   \<and> rel_parents [''src'', ''node_modules'', ''foo'', ''bar.js'']
       = [''src/node_modules/foo'', ''src/node_modules'', ''src'', ''.'']
   \<and> \<not> should_ignore DEFAULT_IGNORE_PATTERNS [''src'', ''node_modules'', ''foo'', ''bar.js'']
   \<and> map rel (scan_files DEFAULT_IGNORE_PATTERNS
         [\<lparr>rel = [''src'', ''node_modules'', ''foo'', ''bar.js''], data = Some ''x'', st_size = 1,
           st_mtime = ''m0''\<rparr>])
       = [[''src'', ''node_modules'', ''foo'', ''bar.js'']]"
  by code_simp

section \<open>The full-text mirror after a replaced row\<close>

lemma save_file_new_path_parity:
  assumes "i_path indexed_file \<notin> f_path ` set (files st)"
    and "mirror_triples st = table_triples st"
  shows "mirror_triples (save_file now indexed_file st) = table_triples (save_file now indexed_file st)"
proof -
  from assms(1) have "filter (\<lambda>r. f_path r \<noteq> i_path indexed_file) (files st) = files st"
    by (intro filter_True) force
  with assms(2) show ?thesis
    by (simp add: save_file_def trigger_ai_def mirror_triples_def table_triples_def Let_def)
qed

text \<open>
  Claim C2 after two upserts of \<open>a.py\<close> into a new database, first with content \<open>alpha\<close>,
  then with \<open>beta\<close>: the table holds the one row with \<open>beta\<close>; the mirror holds the entry
  of the replaced row as well, two entries for the path.
\<close>

theorem replace_leaves_stale_mirror_entry:
  "(let st = save_file ''t2''
               \<lparr>i_path = ''a.py'', i_content = ''beta'', i_language = ''python'', i_size = 4,
                i_last_modified = ''m1'', i_content_hash = ''h2''\<rparr>
               (save_file ''t1''
                  \<lparr>i_path = ''a.py'', i_content = ''alpha'', i_language = ''python'', i_size = 5,
                   i_last_modified = ''m0'', i_content_hash = ''h1''\<rparr>
                  init_database)
    in map (\<lambda>r. (f_path r, f_content r, f_language r)) (files st) = [(''a.py'', ''beta'', ''python'')]
       \<and> fts st = [(1, ''a.py'', ''alpha'', ''python''), (2, ''a.py'', ''beta'', ''python'')]
       \<and> length (mirror_entries_for ''a.py'' st) = 2
       \<and> mirror_triples st \<noteq> table_triples st)"
  by (simp add: save_file_def init_database_def trigger_ai_def mirror_entries_for_def
      mirror_triples_def table_triples_def Let_def)

section \<open>Indexing an unchanged tree twice\<close>

lemma get_file_hash_save_same:
  "get_file_hash (save_file now x st) (i_path x) = Some (i_content_hash x)"
  by (simp add: get_file_hash_def save_file_def trigger_ai_def Let_def)

lemma filter_filter_other:
  "q \<noteq> p \<Longrightarrow> filter (\<lambda>r. f_path r = q) (filter (\<lambda>r. f_path r \<noteq> p) rows) = filter (\<lambda>r. f_path r = q) rows"
  by (induction rows) auto

lemma get_file_hash_save_other:
  assumes "q \<noteq> i_path x"
  shows "get_file_hash (save_file now x st) q = get_file_hash st q"
proof -
  have "filter (\<lambda>r. f_path r = q) (files (save_file now x st))
          = filter (\<lambda>r. f_path r = q) (filter (\<lambda>r. f_path r \<noteq> i_path x) (files st))"
    using assms by (simp add: save_file_def trigger_ai_def Let_def del: filter_filter)
  also have "\<dots> = filter (\<lambda>r. f_path r = q) (files st)"
    using assms by (rule filter_filter_other)
  finally show ?thesis by (simp add: get_file_hash_def)
qed

lemma index_file_path:
  "index_file sha16 st f = Some x \<Longrightarrow> i_path x = rel_path_str (rel f)"
  by (auto simp: index_file_def Let_def split: option.splits if_splits)

lemma index_file_hash:
  "index_file sha16 st f = Some x \<Longrightarrow> data f = Some c \<Longrightarrow> i_content_hash x = sha16 c"
  by (auto simp: index_file_def Let_def split: option.splits if_splits)

lemma index_file_None:
  "index_file sha16 st f = None \<Longrightarrow> data f = Some c
     \<Longrightarrow> get_file_hash st (rel_path_str (rel f)) = Some (sha16 c)"
  by (auto simp: index_file_def Let_def split: option.splits if_splits)

lemma index_step_own_hash:
  "data f = Some c
     \<Longrightarrow> get_file_hash (p_store (index_step sha16 now f ps)) (rel_path_str (rel f)) = Some (sha16 c)"
proof (cases "index_file sha16 (p_store ps) f")
  case None
  assume "data f = Some c"
  with None show ?thesis by (simp add: index_step_def index_file_None)
next
  case (Some x)
  assume d: "data f = Some c"
  from Some have "i_path x = rel_path_str (rel f)" by (rule index_file_path)
  moreover from Some d have "i_content_hash x = sha16 c" by (rule index_file_hash)
  ultimately show ?thesis
    using Some get_file_hash_save_same [of now x "p_store ps"] by (simp add: index_step_def)
qed

lemma index_step_other_hash:
  "q \<noteq> rel_path_str (rel f)
     \<Longrightarrow> get_file_hash (p_store (index_step sha16 now f ps)) q = get_file_hash (p_store ps) q"
proof (cases "index_file sha16 (p_store ps) f")
  case None
  then show ?thesis by (simp add: index_step_def)
next
  case (Some x)
  assume "q \<noteq> rel_path_str (rel f)"
  with Some have "q \<noteq> i_path x" by (simp add: index_file_path)
  with Some show ?thesis by (simp add: index_step_def get_file_hash_save_other)
qed

lemma fold_other_hash:
  "q \<notin> (\<lambda>f. rel_path_str (rel f)) ` set fs
     \<Longrightarrow> get_file_hash (p_store (fold (index_step sha16 now) fs ps)) q = get_file_hash (p_store ps) q"
  by (induction fs arbitrary: ps) (simp_all add: index_step_other_hash)

lemma fold_hashes_stored:
  "distinct (map (\<lambda>f. rel_path_str (rel f)) fs) \<Longrightarrow> f \<in> set fs \<Longrightarrow> data f = Some c
     \<Longrightarrow> get_file_hash (p_store (fold (index_step sha16 now) fs ps)) (rel_path_str (rel f))
           = Some (sha16 c)"
proof (induction fs arbitrary: ps)
  case Nil
  then show ?case by simp
next
  case (Cons x xs)
  show ?case
  proof (cases "f = x")
    case True
    from Cons.prems(1) have "rel_path_str (rel x) \<notin> (\<lambda>f. rel_path_str (rel f)) ` set xs" by simp
    then have "get_file_hash (p_store (fold (index_step sha16 now) xs (index_step sha16 now x ps)))
                 (rel_path_str (rel x))
             = get_file_hash (p_store (index_step sha16 now x ps)) (rel_path_str (rel x))"
      by (rule fold_other_hash)
    with True Cons.prems(3) show ?thesis by (simp add: index_step_own_hash)
  next
    case False
    with Cons.prems have "f \<in> set xs" and "distinct (map (\<lambda>f. rel_path_str (rel f)) xs)" by simp_all
    with Cons.prems(3) show ?thesis by (simp add: Cons.IH)
  qed
qed

lemma index_file_unchanged:
  assumes "\<And>c. data f = Some c \<Longrightarrow> get_file_hash st (rel_path_str (rel f)) = Some (sha16 c)"
  shows "index_file sha16 st f = None"
  using assms by (cases "data f") (simp_all add: index_file_def Let_def)

lemma fold_all_skipped:
  assumes "\<And>f c. f \<in> set fs \<Longrightarrow> data f = Some c
             \<Longrightarrow> get_file_hash (p_store ps) (rel_path_str (rel f)) = Some (sha16 c)"
  shows "fold (index_step sha16 now) fs ps = ps\<lparr>skipped_count := skipped_count ps + length fs\<rparr>"
  using assms
proof (induction fs arbitrary: ps)
  case Nil
  then show ?case by simp
next
  case (Cons x xs)
  have "index_file sha16 (p_store ps) x = None"
    by (rule index_file_unchanged) (simp add: Cons.prems)
  then have step: "index_step sha16 now x ps = ps\<lparr>skipped_count := skipped_count ps + 1\<rparr>"
    by (simp add: index_step_def)
  have "fold (index_step sha16 now) xs (ps\<lparr>skipped_count := skipped_count ps + 1\<rparr>)
          = (ps\<lparr>skipped_count := skipped_count ps + 1\<rparr>)
              \<lparr>skipped_count := skipped_count (ps\<lparr>skipped_count := skipped_count ps + 1\<rparr>) + length xs\<rparr>"
    by (rule Cons.IH) (simp add: Cons.prems)
  with step show ?case by simp
qed

lemma second_pass_no_upserts:
  assumes "distinct (map (\<lambda>f. rel_path_str (rel f)) (scan_files ignore_patterns tree))"
  shows "index_pass sha16 now2 ignore_patterns
           (save_stats s (p_store (index_pass sha16 now1 ignore_patterns st tree))) tree
         = \<lparr>p_store = save_stats s (p_store (index_pass sha16 now1 ignore_patterns st tree)),
            indexed_count = 0, skipped_count = length (scan_files ignore_patterns tree),
            p_total_lines = 0, p_total_size = 0, p_languages = []\<rparr>"
proof -
  let ?fs = "scan_files ignore_patterns tree"
  let ?st1 = "p_store (index_pass sha16 now1 ignore_patterns st tree)"
  have h: "get_file_hash (save_stats s ?st1) (rel_path_str (rel f)) = Some (sha16 c)"
    if "f \<in> set ?fs" "data f = Some c" for f c
    using fold_hashes_stored [OF assms that, of sha16 now1] 
    by (simp add: index_pass_def get_file_hash_def save_stats_def)
  show ?thesis
    unfolding index_pass_def [of sha16 now2]
    by (subst fold_all_skipped) (simp_all add: h)
qed


text \<open>
  Claim C1 on a tree with the one file \<open>hello.py\<close> of three lines, indexed twice into a new
  database: the second pass writes no file (the table is the same), and it returns and
  persists the statistics of that pass, which are all zero, where the first pass returned
  one file, three lines and 26 bytes.
\<close>

theorem reindex_unchanged_tree_resets_stats:
  "(let tree = Some [\<lparr>rel = [''hello.py''],
                      data = Some (''def greet():'' @ [newline] @ ''    return 1'' @ [newline]),
                      st_size = 26, st_mtime = ''m0''\<rparr>]
    in case index_directory sha16 ''t1'' DEFAULT_IGNORE_PATTERNS init_database tree of
         Inl e \<Rightarrow> False
       | Inr (s1, st1) \<Rightarrow>
          (case index_directory sha16 ''t2'' DEFAULT_IGNORE_PATTERNS st1 tree of
             Inl e \<Rightarrow> False
           | Inr (s2, st2) \<Rightarrow>
               (total_files s1, total_lines s1, total_size s1, languages s1)
                 = (1, 3, 26, [(''python'', 1)])
             \<and> (total_files s2, total_lines s2, total_size s2, languages s2) = (0, 0, 0, [])
             \<and> map_option (\<lambda>s. (total_files s, total_lines s, total_size s, languages s))
                  (get_stats st2) = Some (0, 0, 0, [])
             \<and> files st2 = files st1))"
  by (simp add: index_directory_def index_pass_def scan_files_def should_ignore_def
      DEFAULT_IGNORE_PATTERNS_def rel_parents_def rel_path_str_def path_name_def py_suffix_def
      py_lower_def py_lower_char_def LANGUAGE_MAP_def index_step_def index_file_def
      get_file_hash_def save_file_def trigger_ai_def init_database_def save_stats_def
      get_stats_def detect_language_def lang_get_def newline_def Let_def)

end

